theory Spec2Isabelle
  imports Main
begin

section \<open>Data model (internal/browser/events.go)\<close>

text \<open>
  Go's \<^verbatim>\<open>string\<close> and \<^verbatim>\<open>[]byte\<close> are both finite sequences of bytes; both are
  modelled by \<^typ>\<open>string\<close>, whose characters are 8-bit. A nil byte slice and an
  empty one are not told apart by any code of the repository (only \<^verbatim>\<open>len\<close> is
  taken), so both are the empty list. \<^verbatim>\<open>network.RequestID\<close> is a string type.
\<close>

type_synonym bytes = string
type_synonym RequestID = string

subsection \<open>The event payloads of the browser protocol library\<close>

text \<open>
  The payload types come from the cdproto library. Only the fields that the
  repository reads are kept. Pointers are options: \<open>None\<close> is the nil pointer.
\<close>

datatype PostDataEntry = PostDataEntry (entry_Bytes: string)

datatype network_Request =
  network_Request (request_URL: string) (request_PostDataEntries: "PostDataEntry option list")

datatype network_Response = network_Response (response_URL: string)

datatype EventRequestWillBeSent =
  EventRequestWillBeSent (sent_RequestID: RequestID) (sent_Request: "network_Request option")

datatype EventResponseReceived =
  EventResponseReceived (received_RequestID: RequestID) (received_Response: "network_Response option")

datatype EventLoadingFinished = EventLoadingFinished (finished_RequestID: RequestID)

text \<open>
  The field \<^verbatim>\<open>Content interface{}\<close> holds nil, a pointer to one of the two events
  that the listener stores, or a value of any other dynamic type.
\<close>

datatype content =
    NilContent
  | WillBeSent EventRequestWillBeSent
  | Received EventResponseReceived
  | OtherContent

text \<open>The run-time panics that the modelled code can raise.\<close>

datatype panic = TypeAssertion | NilDereference | NilMapAssignment

subsection \<open>Request, Response, Requests, Responses\<close>

text \<open>
  The anonymous struct that \<^verbatim>\<open>InsertIntoDB\<close> takes (database.go) has the fields of
  \<^verbatim>\<open>Request\<close> and \<^verbatim>\<open>Response\<close>.
\<close>

record event =
  RequestID :: RequestID
  Type :: string
  URL :: string
  Content :: content
  Body :: bytes

record Request =
  RequestID :: RequestID
  Type :: string
  URL :: string
  Content :: content
  Body :: bytes

record Response =
  RequestID :: RequestID
  Type :: string
  URL :: string
  Content :: content
  Body :: bytes

type_synonym Requests = "Request list"

text \<open>
  \<open>mu\<close> is the mutex (\<open>True\<close>: held). \<open>ResponseMap\<close> is a Go map, which is nil
  (\<open>None\<close>) until \<^verbatim>\<open>make\<close> allocates it: reading a nil map yields the zero value,
  assigning to one panics.
\<close>

record Responses =
  mu :: bool
  ResponseMap :: "(RequestID \<rightharpoonup> Response) option"

definition zero_Response :: Response where
  "zero_Response = \<lparr>RequestID = [], Type = [], URL = [], Content = NilContent, Body = []\<rparr>"

text \<open>The two forms of a map read: \<^verbatim>\<open>v, ok := m[k]\<close> and \<^verbatim>\<open>v := m[k]\<close>.\<close>

definition map_entry :: "Responses \<Rightarrow> RequestID \<Rightarrow> Response option" where
  "map_entry r k = (case ResponseMap r of None \<Rightarrow> None | Some m \<Rightarrow> m k)"

definition map_index :: "Responses \<Rightarrow> RequestID \<Rightarrow> Response" where
  "map_index r k = (case map_entry r k of None \<Rightarrow> zero_Response | Some v \<Rightarrow> v)"

text \<open>\<^verbatim>\<open>func (r *Responses) Add(response Response)\<close>. It does not touch the mutex.\<close>

definition Responses_Add :: "Responses \<Rightarrow> Response \<Rightarrow> Responses" where
  "Responses_Add r response =
     (let r1 = (if ResponseMap r = None then r\<lparr>ResponseMap := Some Map.empty\<rparr> else r)
      in r1\<lparr>ResponseMap := map_option (\<lambda>m. m(RequestID response \<mapsto> response)) (ResponseMap r1)\<rparr>)"

text \<open>\<^verbatim>\<open>func (rqs *Requests) Add(request Request)\<close>\<close>

definition Requests_Add :: "Requests \<Rightarrow> Request \<Rightarrow> Requests" where
  "Requests_Add rqs request = rqs @ [request]"

text \<open>
  The loop of \<^verbatim>\<open>SetBody\<close>: \<^verbatim>\<open>for _, entry := range postDataEntries { postData += entry.Bytes }\<close>.
  The entries are pointers, and reading \<^verbatim>\<open>Bytes\<close> through a nil one panics.
\<close>

fun SetBody_loop :: "PostDataEntry option list \<Rightarrow> string \<Rightarrow> panic + string" where
  "SetBody_loop [] postData = Inr postData"
| "SetBody_loop (entry # entries) postData =
     (case entry of
        None \<Rightarrow> Inl NilDereference
      | Some e \<Rightarrow> SetBody_loop entries (postData @ entry_Bytes e))"

text \<open>
  \<^verbatim>\<open>func (r *Request) SetBody(ctx context.Context)\<close>. The context is not used. The
  type assertion on \<open>Content\<close> panics unless it holds a request event, and the
  event's \<^verbatim>\<open>Request\<close> is a pointer.
\<close>

definition SetBody :: "Request \<Rightarrow> panic + Request" where
  "SetBody r =
     (if Request.Type r \<noteq> ''request'' then Inr r
      else case Request.Content r of
             WillBeSent ev \<Rightarrow>
               (case sent_Request ev of
                  None \<Rightarrow> Inl NilDereference
                | Some rq \<Rightarrow>
                    (case SetBody_loop (request_PostDataEntries rq) [] of
                       Inl p \<Rightarrow> Inl p
                     | Inr postData \<Rightarrow> Inr (r\<lparr>Request.Body := postData\<rparr>)))
           | _ \<Rightarrow> Inl TypeAssertion)"

section \<open>The body fetcher (internal/browser/browser.go)\<close>

text \<open>
  The browser session is outside the program. One call of
  \<^verbatim>\<open>chromedp.Run(b.ctx, chromedp.ActionFunc(...))\<close> either fails before the action
  returns a body (\<open>RunError\<close>: a cancelled or invalid context), or runs the action,
  whose \<^verbatim>\<open>network.GetResponseBody(id).Do(ctx)\<close> fails (\<open>DoError\<close>) or returns the
  bytes of the body (\<open>Fetched\<close>). The session answers by \<open>answer\<close>; \<open>calls\<close> is a
  log of the retrieval calls made so far and of what each returned, kept so that
  the number of calls and the bytes they returned can be spoken about.
\<close>

datatype fetch_outcome = RunError string | DoError string | Fetched bytes

record Browser =
  answer :: "RequestID \<Rightarrow> fetch_outcome"
  calls :: "(RequestID \<times> fetch_outcome) list"

definition network_GetResponseBody :: "Browser \<Rightarrow> RequestID \<Rightarrow> fetch_outcome \<times> Browser" where
  "network_GetResponseBody b k = (answer b k, b\<lparr>calls := calls b @ [(k, answer b k)]\<rparr>)"

text \<open>
  Lines 124 to 136 of \<^verbatim>\<open>GetResponseBody\<close>: the call, the assignment \<^verbatim>\<open>r.Body = body\<close>
  on success, and the error that is returned otherwise.
\<close>

definition fetch_body :: "Browser \<Rightarrow> Response \<Rightarrow> (string + Response) \<times> Browser" where
  "fetch_body b r =
     (case network_GetResponseBody b (RequestID r) of
        (RunError e, b') \<Rightarrow> (Inl (''could not get response body: '' @ e), b')
      | (DoError e, b') \<Rightarrow>
          (Inl (''could not get response body: '' @ ''failed to get response body: '' @ e), b')
      | (Fetched body, b') \<Rightarrow> (Inr (r\<lparr>Body := body\<rparr>), b'))"

text \<open>\<^verbatim>\<open>mu.Lock()\<close> blocks while the mutex is held (\<open>None\<close>); \<^verbatim>\<open>mu.Unlock()\<close> frees it.\<close>

definition Lock :: "Responses \<Rightarrow> Responses option" where
  "Lock r = (if mu r then None else Some (r\<lparr>mu := True\<rparr>))"

definition Unlock :: "Responses \<Rightarrow> Responses" where
  "Unlock r = r\<lparr>mu := False\<rparr>"

text \<open>Line 141: \<^verbatim>\<open>responses.ResponseMap[r.RequestID] = *r\<close>, with no check for nil.\<close>

definition store_response :: "Responses \<Rightarrow> Response \<Rightarrow> panic + Responses" where
  "store_response rs r =
     (case ResponseMap rs of
        None \<Rightarrow> Inl NilMapAssignment
      | Some m \<Rightarrow> Inr (rs\<lparr>ResponseMap := Some (m(RequestID r \<mapsto> r))\<rparr>))"

text \<open>
  What a call can do: return, panic, or block for ever on the mutex. A panic in
  the watch goroutine is not recovered, so it ends the process.
\<close>

datatype 'a outcome = Returns 'a | Panics panic | Blocks

text \<open>
  \<^verbatim>\<open>func (b *Browser) GetResponseBody(logger, r *Response, responses *Responses) error\<close>.
  The result holds the error (\<open>None\<close> is nil), the response behind \<open>r\<close>, the
  collection behind \<open>responses\<close> and the browser.
\<close>

definition GetResponseBody ::
  "Browser \<Rightarrow> Response \<Rightarrow> Responses \<Rightarrow> (string option \<times> Response \<times> Responses \<times> Browser) outcome" where
  "GetResponseBody b r responses =
     (case fetch_body b r of
        (Inl err, b') \<Rightarrow> Returns (Some err, r, responses, b')
      | (Inr r', b') \<Rightarrow>
          (case Lock responses of
             None \<Rightarrow> Blocks
           | Some locked \<Rightarrow>
               (case store_response locked r' of
                  Inl p \<Rightarrow> Panics p
                | Inr stored \<Rightarrow> Returns (None, r', Unlock stored, b'))))"

text \<open>
  The body of the loop of \<^verbatim>\<open>WatchEventFinishers\<close> for one notification, run with
  no other goroutine in between: the read under the mutex, then
  \<^verbatim>\<open>GetResponseBody\<close>, whose error the loop drops.
\<close>

definition watch_event ::
  "Browser \<Rightarrow> EventLoadingFinished \<Rightarrow> Responses \<Rightarrow> (Responses \<times> Browser) outcome" where
  "watch_event b event responses =
     (case Lock responses of
        None \<Rightarrow> Blocks
      | Some locked \<Rightarrow>
          (let resp = map_index locked (finished_RequestID event);
               unlocked = Unlock locked
           in case GetResponseBody b resp unlocked of
                Returns (_, _, responses', b') \<Rightarrow> Returns (responses', b')
              | Panics p \<Rightarrow> Panics p
              | Blocks \<Rightarrow> Blocks))"

section \<open>The goroutines, interleaved\<close>

text \<open>
  The listener starts one goroutine per browser event and the watch loop runs in
  a goroutine of its own, so their statements interleave. This first model
  takes the goroutine of a response-received event as one step and each
  statement of the watch goroutine that touches shared state as one step; it
  serves for one schedule, the lost update. The model of the next section takes
  \<^verbatim>\<open>Add\<close> and the map assignments apart. The position of the watch
  goroutine in the loop body of \<^verbatim>\<open>WatchEventFinishers\<close> and in \<^verbatim>\<open>GetResponseBody\<close>:
  waiting on the channel (line 162), before \<^verbatim>\<open>Lock\<close> (166), before the map read
  (167), before \<^verbatim>\<open>Unlock\<close> (168) with the local \<^verbatim>\<open>resp\<close>, before the browser
  call (124), before the second \<^verbatim>\<open>Lock\<close> (139), before the map write (141), and
  before the deferred \<^verbatim>\<open>Unlock\<close> (140).
\<close>

datatype watcher =
    Receiving
  | AtLock EventLoadingFinished
  | AtLookup EventLoadingFinished
  | AtUnlock Response
  | AtFetch Response
  | AtStoreLock Response
  | AtStore Response
  | AtStoreUnlock

record system =
  resps :: Responses
  browser :: Browser
  watcher :: watcher
  crashed :: "panic option"

text \<open>
  What can happen next: the goroutine of a response-received event runs (lines
  81 to 84), a load-finished event is handed over the unbuffered channel to the
  waiting loop (line 89 meets line 162), the watch goroutine runs its next
  statement, or the browser session changes what it would answer.
\<close>

datatype action =
    ResponseReceived EventResponseReceived
  | LoadingFinished EventLoadingFinished
  | Watcher
  | BrowserChange "RequestID \<Rightarrow> fetch_outcome"

text \<open>
  Line 83: \<^verbatim>\<open>responses.Add(Response{RequestID: ev.RequestID, Type: "response", URL: ev.Response.URL, Content: ev})\<close>.
  \<^verbatim>\<open>ev.Response\<close> is a pointer.
\<close>

definition on_ResponseReceived :: "EventResponseReceived \<Rightarrow> Responses \<Rightarrow> panic + Responses" where
  "on_ResponseReceived ev rs =
     (case received_Response ev of
        None \<Rightarrow> Inl NilDereference
      | Some rsp \<Rightarrow>
          Inr (Responses_Add rs \<lparr>RequestID = received_RequestID ev, Type = ''response'',
                 URL = response_URL rsp, Content = Received ev, Body = []\<rparr>))"

text \<open>
  One statement of the watch goroutine. \<open>None\<close>: it cannot move (it waits on the
  channel or on the mutex). A failed fetch makes \<^verbatim>\<open>GetResponseBody\<close> return its
  error, which line 170 drops, and the loop waits for the next notification.
\<close>

definition watcher_step :: "system \<Rightarrow> system option" where
  "watcher_step s =
     (case watcher s of
        Receiving \<Rightarrow> None
      | AtLock event \<Rightarrow>
          (case Lock (resps s) of
             None \<Rightarrow> None
           | Some locked \<Rightarrow> Some (s\<lparr>resps := locked, watcher := AtLookup event\<rparr>))
      | AtLookup event \<Rightarrow>
          Some (s\<lparr>watcher := AtUnlock (map_index (resps s) (finished_RequestID event))\<rparr>)
      | AtUnlock resp \<Rightarrow> Some (s\<lparr>resps := Unlock (resps s), watcher := AtFetch resp\<rparr>)
      | AtFetch resp \<Rightarrow>
          (case fetch_body (browser s) resp of
             (Inl err, b') \<Rightarrow> Some (s\<lparr>browser := b', watcher := Receiving\<rparr>)
           | (Inr r', b') \<Rightarrow> Some (s\<lparr>browser := b', watcher := AtStoreLock r'\<rparr>))
      | AtStoreLock r \<Rightarrow>
          (case Lock (resps s) of
             None \<Rightarrow> None
           | Some locked \<Rightarrow> Some (s\<lparr>resps := locked, watcher := AtStore r\<rparr>))
      | AtStore r \<Rightarrow>
          (case store_response (resps s) r of
             Inl p \<Rightarrow> Some (s\<lparr>resps := Unlock (resps s), crashed := Some p\<rparr>)
           | Inr stored \<Rightarrow> Some (s\<lparr>resps := stored, watcher := AtStoreUnlock\<rparr>))
      | AtStoreUnlock \<Rightarrow> Some (s\<lparr>resps := Unlock (resps s), watcher := Receiving\<rparr>))"

text \<open>A panic in any goroutine ends the process: nothing moves after it.\<close>

definition step :: "action \<Rightarrow> system \<Rightarrow> system option" where
  "step a s =
     (if crashed s \<noteq> None then None
      else case a of
             ResponseReceived ev \<Rightarrow>
               (case on_ResponseReceived ev (resps s) of
                  Inl p \<Rightarrow> Some (s\<lparr>crashed := Some p\<rparr>)
                | Inr rs \<Rightarrow> Some (s\<lparr>resps := rs\<rparr>))
           | LoadingFinished event \<Rightarrow>
               (if watcher s = Receiving then Some (s\<lparr>watcher := AtLock event\<rparr>) else None)
           | Watcher \<Rightarrow> watcher_step s
           | BrowserChange f \<Rightarrow> Some (s\<lparr>browser := (browser s)\<lparr>answer := f\<rparr>\<rparr>))"

fun run :: "action list \<Rightarrow> system \<Rightarrow> system option" where
  "run [] s = Some s"
| "run (a # as) s = (case step a s of None \<Rightarrow> None | Some s' \<Rightarrow> run as s')"

text \<open>
  The start of \<^verbatim>\<open>main\<close>: \<^verbatim>\<open>browser.Responses{}\<close> (a free mutex and a nil map), a
  browser that has not been asked for any body, and the loop waiting.
\<close>

definition start :: "(RequestID \<Rightarrow> fetch_outcome) \<Rightarrow> system" where
  "start f = \<lparr>resps = \<lparr>mu = False, ResponseMap = None\<rparr>,
              browser = \<lparr>answer = f, calls = []\<rparr>, watcher = Receiving, crashed = None\<rparr>"

text \<open>
  The body of a response is in order when it is empty or is the bytes that a
  retrieval call for the response's requestID returned.
\<close>

definition body_ok :: "Browser \<Rightarrow> Response \<Rightarrow> bool" where
  "body_ok b r = (Body r = [] \<or> (RequestID r, Fetched (Body r)) \<in> set (calls b))"

section \<open>The goroutines, with Add and the map assignments taken apart\<close>

text \<open>
  \<^verbatim>\<open>Responses.Add\<close> takes no lock, so its statements (events.go, lines 33 to 36:
  the nil test, \<^verbatim>\<open>make\<close>, the map assignment) interleave with those of the other
  goroutines, and two goroutines can be inside the map at once. The Go runtime
  (go 1.22, runtime/map.go and map_faststr.go) marks a map while an assignment
  to it runs and ends the process when an access finds the mark where it must
  not be. This model has the statements of \<^verbatim>\<open>Add\<close>, the map objects with their
  mark, and these fatal errors. Each step is atomic. Accesses that overlap
  within a step (a data race that the runtime does not see, whose outcome Go
  does not define) are outside this model.
\<close>

text \<open>
  Fatal errors of the Go runtime, which end the process and cannot be recovered:
  "concurrent map writes" and "concurrent map read and map write".
\<close>

datatype fatal = ConcurrentMapWrites | ConcurrentMapReadAndMapWrite

datatype crash = Panic panic | Fatal fatal

text \<open>
  A map object in the heap: the mark \<^verbatim>\<open>hashWriting\<close> of its header and its
  entries.
\<close>

record hmap =
  writing :: bool
  entries :: "RequestID \<rightharpoonup> Response"

text \<open>
  The position of the goroutine of a response-received event, with the
  \<^verbatim>\<open>Response\<close> it was given, in \<^verbatim>\<open>Responses.Add\<close>: before the nil test (line 33),
  before \<^verbatim>\<open>make\<close> (34), before the map assignment (36), inside the assignment on
  the map object at an address (mark set, key not yet settled), after the key
  is settled and before the value is written to its slot, and done.
\<close>

datatype listener =
    AtNilCheck Response
  | AtMake Response
  | AtAssign Response
  | AtInsert nat Response
  | AtValue nat Response
  | Finished

text \<open>
  The positions of the watch goroutine as before, with the map assignment of
  line 141 taken apart in the same way.
\<close>

datatype conc_watcher =
    WReceiving
  | WLock EventLoadingFinished
  | WLookup EventLoadingFinished
  | WUnlock Response
  | WFetch Response
  | WStoreLock Response
  | WStore Response
  | WStoreInsert nat Response
  | WStoreValue nat Response
  | WStoreUnlock

text \<open>
  The shared state: the mutex, \<^verbatim>\<open>responses.ResponseMap\<close> (nil or the address of
  a map object), the heap of map objects, the browser, the watch goroutine, the
  goroutines of the response-received events in the order they were started,
  and whether the process has ended by a panic or a fatal error.
\<close>

record conc =
  c_mu :: bool
  c_map :: "nat option"
  c_heap :: "hmap list"
  c_browser :: Browser
  c_watcher :: conc_watcher
  c_listeners :: "listener list"
  c_crashed :: "crash option"

text \<open>
  What can happen next: a response-received event starts its goroutine, the
  goroutine with a given number runs its next statement, a load-finished event
  is handed to the waiting loop, the watch goroutine runs its next statement, or
  the browser session changes what it would answer.
\<close>

datatype conc_action =
    Spawn EventResponseReceived
  | Listener nat
  | Notify EventLoadingFinished
  | WatcherStep
  | SessionChange "RequestID \<Rightarrow> fetch_outcome"

text \<open>
  The collection as the sequential functions see it: the mutex and the entries
  of the map object that \<^verbatim>\<open>ResponseMap\<close> points to.
\<close>

definition view :: "conc \<Rightarrow> Responses" where
  "view s = \<lparr>mu = c_mu s, ResponseMap = map_option (\<lambda>p. entries (c_heap s ! p)) (c_map s)\<rparr>"

text \<open>
  A map assignment \<^verbatim>\<open>m[k] = v\<close> is \<^verbatim>\<open>*mapassign(m, k) = v\<close>. \<^verbatim>\<open>mapassign\<close> ends the
  process if the mark is set, else sets it (\<open>mapassign_begin\<close>); it settles the
  slot of the key, a new key getting the zero value, ends the process if the
  mark is no longer set, else clears it and returns the slot
  (\<open>mapassign_insert\<close>); the caller then writes the value to the slot
  (\<open>store_value\<close>). A read \<^verbatim>\<open>m[k]\<close> returns the zero value for a nil map and for
  a map with no entry without looking at the mark, and otherwise ends the
  process if the mark is set (\<open>mapaccess\<close>).
\<close>

definition mapassign_begin :: "hmap \<Rightarrow> fatal + hmap" where
  "mapassign_begin h = (if writing h then Inl ConcurrentMapWrites else Inr (h\<lparr>writing := True\<rparr>))"

definition mapassign_insert :: "RequestID \<Rightarrow> hmap \<Rightarrow> fatal + hmap" where
  "mapassign_insert k h =
     (if \<not> writing h then Inl ConcurrentMapWrites
      else Inr \<lparr>writing = False,
                entries = (if entries h k = None then (entries h)(k \<mapsto> zero_Response) else entries h)\<rparr>)"

definition store_value :: "Response \<Rightarrow> hmap \<Rightarrow> hmap" where
  "store_value r h = h\<lparr>entries := (entries h)(RequestID r \<mapsto> r)\<rparr>"

definition mapaccess :: "RequestID \<Rightarrow> hmap option \<Rightarrow> fatal + Response" where
  "mapaccess k m =
     (case m of
        None \<Rightarrow> Inr zero_Response
      | Some h \<Rightarrow>
          if entries h = Map.empty then Inr zero_Response
          else if writing h then Inl ConcurrentMapReadAndMapWrite
          else Inr (case entries h k of None \<Rightarrow> zero_Response | Some v \<Rightarrow> v))"

text \<open>
  Lines 81 to 83: the goroutine starts and builds the \<^verbatim>\<open>Response\<close> that it passes
  to \<^verbatim>\<open>Add\<close>; \<^verbatim>\<open>ev.Response\<close> is a pointer.
\<close>

definition spawn :: "EventResponseReceived \<Rightarrow> conc \<Rightarrow> conc" where
  "spawn ev s =
     (case received_Response ev of
        None \<Rightarrow> s\<lparr>c_crashed := Some (Panic NilDereference)\<rparr>
      | Some rsp \<Rightarrow>
          s\<lparr>c_listeners := c_listeners s @
               [AtNilCheck \<lparr>RequestID = received_RequestID ev, Type = ''response'',
                            URL = response_URL rsp, Content = Received ev, Body = []\<rparr>]\<rparr>)"

text \<open>
  One statement of the goroutine with number \<open>i\<close>. \<open>None\<close>: there is no such
  goroutine or it is done. An assignment works on the map object whose address
  it read when it began, also if \<^verbatim>\<open>ResponseMap\<close> has been replaced since.
\<close>

definition listener_step :: "nat \<Rightarrow> conc \<Rightarrow> conc option" where
  "listener_step i s =
     (if length (c_listeners s) \<le> i then None
      else case c_listeners s ! i of
        AtNilCheck response \<Rightarrow>
          Some (s\<lparr>c_listeners := (c_listeners s)[i := (if c_map s = None then AtMake response
                                                         else AtAssign response)]\<rparr>)
      | AtMake response \<Rightarrow>
          Some (s\<lparr>c_map := Some (length (c_heap s)),
                  c_heap := c_heap s @ [\<lparr>writing = False, entries = Map.empty\<rparr>],
                  c_listeners := (c_listeners s)[i := AtAssign response]\<rparr>)
      | AtAssign response \<Rightarrow>
          (case c_map s of
             None \<Rightarrow> Some (s\<lparr>c_crashed := Some (Panic NilMapAssignment)\<rparr>)
           | Some p \<Rightarrow>
               (case mapassign_begin (c_heap s ! p) of
                  Inl f \<Rightarrow> Some (s\<lparr>c_crashed := Some (Fatal f)\<rparr>)
                | Inr h \<Rightarrow> Some (s\<lparr>c_heap := (c_heap s)[p := h],
                                     c_listeners := (c_listeners s)[i := AtInsert p response]\<rparr>)))
      | AtInsert p response \<Rightarrow>
          (case mapassign_insert (RequestID response) (c_heap s ! p) of
             Inl f \<Rightarrow> Some (s\<lparr>c_crashed := Some (Fatal f)\<rparr>)
           | Inr h \<Rightarrow> Some (s\<lparr>c_heap := (c_heap s)[p := h],
                                c_listeners := (c_listeners s)[i := AtValue p response]\<rparr>))
      | AtValue p response \<Rightarrow>
          Some (s\<lparr>c_heap := (c_heap s)[p := store_value response (c_heap s ! p)],
                  c_listeners := (c_listeners s)[i := Finished]\<rparr>)
      | Finished \<Rightarrow> None)"

text \<open>
  One statement of the watch goroutine.
\<close>

definition conc_watcher_step :: "conc \<Rightarrow> conc option" where
  "conc_watcher_step s =
     (case c_watcher s of
        WReceiving \<Rightarrow> None
      | WLock event \<Rightarrow>
          (if c_mu s then None else Some (s\<lparr>c_mu := True, c_watcher := WLookup event\<rparr>))
      | WLookup event \<Rightarrow>
          (case mapaccess (finished_RequestID event) (map_option (\<lambda>p. c_heap s ! p) (c_map s)) of
             Inl f \<Rightarrow> Some (s\<lparr>c_crashed := Some (Fatal f)\<rparr>)
           | Inr resp \<Rightarrow> Some (s\<lparr>c_watcher := WUnlock resp\<rparr>))
      | WUnlock resp \<Rightarrow> Some (s\<lparr>c_mu := False, c_watcher := WFetch resp\<rparr>)
      | WFetch resp \<Rightarrow>
          (case fetch_body (c_browser s) resp of
             (Inl err, b') \<Rightarrow> Some (s\<lparr>c_browser := b', c_watcher := WReceiving\<rparr>)
           | (Inr r', b') \<Rightarrow> Some (s\<lparr>c_browser := b', c_watcher := WStoreLock r'\<rparr>))
      | WStoreLock r \<Rightarrow>
          (if c_mu s then None else Some (s\<lparr>c_mu := True, c_watcher := WStore r\<rparr>))
      | WStore r \<Rightarrow>
          (case c_map s of
             None \<Rightarrow> Some (s\<lparr>c_mu := False, c_crashed := Some (Panic NilMapAssignment)\<rparr>)
           | Some p \<Rightarrow>
               (case mapassign_begin (c_heap s ! p) of
                  Inl f \<Rightarrow> Some (s\<lparr>c_crashed := Some (Fatal f)\<rparr>)
                | Inr h \<Rightarrow> Some (s\<lparr>c_heap := (c_heap s)[p := h], c_watcher := WStoreInsert p r\<rparr>)))
      | WStoreInsert p r \<Rightarrow>
          (case mapassign_insert (RequestID r) (c_heap s ! p) of
             Inl f \<Rightarrow> Some (s\<lparr>c_crashed := Some (Fatal f)\<rparr>)
           | Inr h \<Rightarrow> Some (s\<lparr>c_heap := (c_heap s)[p := h], c_watcher := WStoreValue p r\<rparr>))
      | WStoreValue p r \<Rightarrow>
          Some (s\<lparr>c_heap := (c_heap s)[p := store_value r (c_heap s ! p)], c_watcher := WStoreUnlock\<rparr>)
      | WStoreUnlock \<Rightarrow> Some (s\<lparr>c_mu := False, c_watcher := WReceiving\<rparr>))"

text \<open>
  Nothing moves after the process has ended.
\<close>

definition conc_step :: "conc_action \<Rightarrow> conc \<Rightarrow> conc option" where
  "conc_step a s =
     (if c_crashed s \<noteq> None then None
      else case a of
             Spawn ev \<Rightarrow> Some (spawn ev s)
           | Listener i \<Rightarrow> listener_step i s
           | Notify event \<Rightarrow>
               (if c_watcher s = WReceiving then Some (s\<lparr>c_watcher := WLock event\<rparr>) else None)
           | WatcherStep \<Rightarrow> conc_watcher_step s
           | SessionChange f \<Rightarrow> Some (s\<lparr>c_browser := (c_browser s)\<lparr>answer := f\<rparr>\<rparr>))"

fun conc_run :: "conc_action list \<Rightarrow> conc \<Rightarrow> conc option" where
  "conc_run [] s = Some s"
| "conc_run (a # as) s = (case conc_step a s of None \<Rightarrow> None | Some s' \<Rightarrow> conc_run as s')"

definition conc_start :: "(RequestID \<Rightarrow> fetch_outcome) \<Rightarrow> conc" where
  "conc_start f = \<lparr>c_mu = False, c_map = None, c_heap = [], c_browser = \<lparr>answer = f, calls = []\<rparr>,
                   c_watcher = WReceiving, c_listeners = [], c_crashed = None\<rparr>"

text \<open>
  For the proof that bodies are in order: the response that a goroutine carries
  and the address of the map object that it is assigning to.
\<close>

definition carried :: "listener \<Rightarrow> Response option" where
  "carried l = (case l of AtNilCheck r \<Rightarrow> Some r | AtMake r \<Rightarrow> Some r | AtAssign r \<Rightarrow> Some r
                | AtInsert p r \<Rightarrow> Some r | AtValue p r \<Rightarrow> Some r | Finished \<Rightarrow> None)"

definition target :: "listener \<Rightarrow> nat option" where
  "target l = (case l of AtInsert p r \<Rightarrow> Some p | AtValue p r \<Rightarrow> Some p | _ \<Rightarrow> None)"



definition hmap_ok :: "Browser \<Rightarrow> hmap \<Rightarrow> bool" where
  "hmap_ok b h = (\<forall>k r. entries h k = Some r \<longrightarrow> body_ok b r)"

definition heap_ok :: "Browser \<Rightarrow> hmap list \<Rightarrow> bool" where
  "heap_ok b hs = (\<forall>h\<in>set hs. hmap_ok b h)"

definition listener_ok :: "Browser \<Rightarrow> nat \<Rightarrow> listener \<Rightarrow> bool" where
  "listener_ok b n l =
     ((\<forall>p. target l = Some p \<longrightarrow> p < n) \<and> (\<forall>r. carried l = Some r \<longrightarrow> body_ok b r))"

definition listeners_ok :: "Browser \<Rightarrow> nat \<Rightarrow> listener list \<Rightarrow> bool" where
  "listeners_ok b n ls = (\<forall>l\<in>set ls. listener_ok b n l)"


section \<open>The persistence sink (internal/database/database.go)\<close>

subsection \<open>The functions of package strings that are called\<close>

text \<open>
  \<^verbatim>\<open>InsertIntoDB\<close> calls \<^verbatim>\<open>url.Parse\<close> and \<^verbatim>\<open>strings.Split\<close> of Go's standard
  library (go.mod: go 1.22). They decide which URLs are refused and which
  hostname is stored, so they are written out here from the library's source,
  on bytes. \<^verbatim>\<open>Index\<close> and \<^verbatim>\<open>LastIndex\<close> return \<open>None\<close> for Go's -1. \<open>Split\<close> is
  \<^verbatim>\<open>strings.Split\<close> for a separator of one byte, which is how it is called.
  \<open>ToLower\<close> is applied to a scheme only, which \<open>getScheme\<close> makes of ASCII
  letters, digits, plus, minus and dot.
\<close>

definition HasPrefix :: "string \<Rightarrow> string \<Rightarrow> bool" where
  "HasPrefix s pre = (take (length pre) s = pre)"

definition HasSuffix :: "string \<Rightarrow> string \<Rightarrow> bool" where
  "HasSuffix s suf = (length suf \<le> length s \<and> drop (length s - length suf) s = suf)"

fun Index :: "string \<Rightarrow> string \<Rightarrow> nat option" where
  "Index [] sub = (if sub = [] then Some 0 else None)"
| "Index (c # cs) sub =
     (if HasPrefix (c # cs) sub then Some 0 else map_option Suc (Index cs sub))"

fun LastIndex :: "string \<Rightarrow> string \<Rightarrow> nat option" where
  "LastIndex [] sub = (if sub = [] then Some 0 else None)"
| "LastIndex (c # cs) sub =
     (case LastIndex cs sub of
        Some i \<Rightarrow> Some (Suc i)
      | None \<Rightarrow> if HasPrefix (c # cs) sub then Some 0 else None)"

definition Contains :: "string \<Rightarrow> string \<Rightarrow> bool" where
  "Contains s sub = (Index s sub \<noteq> None)"

definition Cut :: "string \<Rightarrow> string \<Rightarrow> string \<times> string \<times> bool" where
  "Cut s sep =
     (case Index s sep of
        Some i \<Rightarrow> (take i s, drop (i + length sep) s, True)
      | None \<Rightarrow> (s, [], False))"

fun Split_from :: "char \<Rightarrow> string \<Rightarrow> string \<Rightarrow> string list" where
  "Split_from sep piece [] = [piece]"
| "Split_from sep piece (c # cs) =
     (if c = sep then piece # Split_from sep [] cs else Split_from sep (piece @ [c]) cs)"

definition Split :: "string \<Rightarrow> char \<Rightarrow> string list" where
  "Split s sep = Split_from sep [] s"

definition between :: "char \<Rightarrow> char \<Rightarrow> char \<Rightarrow> bool" where
  "between lo c hi = ((of_char lo :: nat) \<le> of_char c \<and> (of_char c :: nat) \<le> of_char hi)"

definition ToLower :: "string \<Rightarrow> string" where
  "ToLower s = map (\<lambda>c. if between CHR ''A'' c CHR ''Z'' then char_of (of_char c + (32::nat)) else c) s"

subsection \<open>url.Parse\<close>

text \<open>
  The errors of \<^verbatim>\<open>net/url\<close> by their message: "net/url: invalid control character
  in URL", "missing protocol scheme", "first path segment in URL cannot contain
  colon", "missing ']' in host", "invalid port ... after host", "net/url:
  invalid userinfo", "invalid URL escape ...", "invalid character ... in host
  name". \<open>url_Error\<close> is \<^verbatim>\<open>*url.Error{Op, URL, Err}\<close>. The record \<open>url_URL\<close> leaves
  out \<^verbatim>\<open>RawPath\<close> and \<^verbatim>\<open>RawFragment\<close>, which need the escaper and which no code of
  the repository reads. \<open>shouldEscape_encodeHost c\<close> is \<^verbatim>\<open>shouldEscape(c, encodeHost)\<close>,
  the only mode in which \<^verbatim>\<open>unescape\<close> calls it; \<open>unescape_check\<close> and
  \<open>unescape_build\<close> are the two loops of \<^verbatim>\<open>unescape\<close>; \<open>parse\<close> is \<^verbatim>\<open>parse(rawURL, false)\<close>.
\<close>

datatype url_error =
    InvalidControlCharacter
  | MissingProtocolScheme
  | FirstPathSegmentColon
  | MissingBracket
  | InvalidPort string
  | InvalidUserinfo
  | EscapeError string
  | InvalidHostError string

datatype url_Error = url_Error (Op: string) (Err_URL: string) (Err: url_error)

datatype encoding = encodePath | encodeHost | encodeZone | encodeUserPassword | encodeFragment

datatype Userinfo = Userinfo (username: string) (password: string) (passwordSet: bool)

record url_URL =
  Scheme :: string
  Opaque :: string
  User :: "Userinfo option"
  Host :: string
  Path :: string
  OmitHost :: bool
  ForceQuery :: bool
  RawQuery :: string
  Fragment :: string

definition new_URL :: url_URL where
  "new_URL = \<lparr>Scheme = [], Opaque = [], User = None, Host = [], Path = [], OmitHost = False,
              ForceQuery = False, RawQuery = [], Fragment = []\<rparr>"

definition stringContainsCTLByte :: "string \<Rightarrow> bool" where
  "stringContainsCTLByte s = (\<exists>b\<in>set s. (of_char b :: nat) < of_char CHR '' '' \<or> (of_char b :: nat) = 0x7f)"

definition ishex :: "char \<Rightarrow> bool" where
  "ishex c = (between CHR ''0'' c CHR ''9'' \<or> between CHR ''a'' c CHR ''f'' \<or> between CHR ''A'' c CHR ''F'')"

definition unhex :: "char \<Rightarrow> nat" where
  "unhex c =
     (if between CHR ''0'' c CHR ''9'' then of_char c - of_char CHR ''0''
      else if between CHR ''a'' c CHR ''f'' then of_char c - of_char CHR ''a'' + 10
      else if between CHR ''A'' c CHR ''F'' then of_char c - of_char CHR ''A'' + 10
      else 0)"

definition shouldEscape_encodeHost :: "char \<Rightarrow> bool" where
  "shouldEscape_encodeHost c =
     (if between CHR ''a'' c CHR ''z'' \<or> between CHR ''A'' c CHR ''Z'' \<or> between CHR ''0'' c CHR ''9''
      then False
      else if c \<in> set ''!$&'' \<or> c = CHR 0x27 \<or> c \<in> set ''()*+,;=:[]<>'' \<or> c = CHR 0x22 then False
      else if c \<in> set ''-_.~'' then False
      else True)"

fun unescape_check :: "encoding \<Rightarrow> string \<Rightarrow> url_error option" where
  "unescape_check mode [] = None"
| "unescape_check mode (c # s) =
     (if c = CHR ''%'' then
        (case s of
           h1 # h2 # rest \<Rightarrow>
             if \<not> ishex h1 \<or> \<not> ishex h2 then Some (EscapeError (take 3 (c # s)))
             else if mode = encodeHost \<and> unhex h1 < 8 \<and> [c, h1, h2] \<noteq> ''%25''
               then Some (EscapeError [c, h1, h2])
             else if mode = encodeZone \<and> [c, h1, h2] \<noteq> ''%25''
                     \<and> unhex h1 * 16 + unhex h2 \<noteq> of_char CHR '' ''
                     \<and> shouldEscape_encodeHost (char_of (unhex h1 * 16 + unhex h2))
               then Some (EscapeError [c, h1, h2])
             else unescape_check mode rest
         | _ \<Rightarrow> Some (EscapeError (take 3 (c # s))))
      else if c = CHR ''+'' then unescape_check mode s
      else if (mode = encodeHost \<or> mode = encodeZone) \<and> (of_char c :: nat) < 0x80
                \<and> shouldEscape_encodeHost c
        then Some (InvalidHostError [c])
      else unescape_check mode s)"

fun unescape_build :: "string \<Rightarrow> string" where
  "unescape_build [] = []"
| "unescape_build (c # s) =
     (if c = CHR ''%'' then
        (case s of
           h1 # h2 # rest \<Rightarrow> char_of (unhex h1 * 16 + unhex h2) # unescape_build rest
         | _ \<Rightarrow> [])
      else c # unescape_build s)"

definition unescape :: "string \<Rightarrow> encoding \<Rightarrow> url_error + string" where
  "unescape s mode = (case unescape_check mode s of Some e \<Rightarrow> Inl e | None \<Rightarrow> Inr (unescape_build s))"

fun getScheme_from :: "string \<Rightarrow> string \<Rightarrow> string \<Rightarrow> url_error + string \<times> string" where
  "getScheme_from rawURL seen [] = Inr ([], rawURL)"
| "getScheme_from rawURL seen (c # cs) =
     (if between CHR ''a'' c CHR ''z'' \<or> between CHR ''A'' c CHR ''Z'' then getScheme_from rawURL (seen @ [c]) cs
      else if between CHR ''0'' c CHR ''9'' \<or> c = CHR ''+'' \<or> c = CHR ''-'' \<or> c = CHR ''.'' then
        (if seen = [] then Inr ([], rawURL) else getScheme_from rawURL (seen @ [c]) cs)
      else if c = CHR '':'' then
        (if seen = [] then Inl MissingProtocolScheme else Inr (seen, cs))
      else Inr ([], rawURL))"

definition getScheme :: "string \<Rightarrow> url_error + string \<times> string" where
  "getScheme rawURL = getScheme_from rawURL [] rawURL"

definition validOptionalPort :: "string \<Rightarrow> bool" where
  "validOptionalPort port =
     (case port of
        [] \<Rightarrow> True
      | c # digits \<Rightarrow> c = CHR '':'' \<and> (\<forall>b\<in>set digits. between CHR ''0'' b CHR ''9''))"

definition validUserinfo :: "string \<Rightarrow> bool" where
  "validUserinfo s =
     (\<forall>r\<in>set s. between CHR ''A'' r CHR ''Z'' \<or> between CHR ''a'' r CHR ''z'' \<or> between CHR ''0'' r CHR ''9''
        \<or> r \<in> set ''-._:~!$&'' \<or> r = CHR 0x27 \<or> r \<in> set ''()*+,;=%@'')"

definition parseHost :: "string \<Rightarrow> url_error + string" where
  "parseHost host =
     (if HasPrefix host ''['' then
        (case LastIndex host '']'' of
           None \<Rightarrow> Inl MissingBracket
         | Some i \<Rightarrow>
             let colonPort = drop (i + 1) host in
             if \<not> validOptionalPort colonPort then Inl (InvalidPort colonPort)
             else (case Index (take i host) ''%25'' of
                     Some zone \<Rightarrow>
                       (case unescape (take zone host) encodeHost of
                          Inl e \<Rightarrow> Inl e
                        | Inr host1 \<Rightarrow>
                            (case unescape (drop zone (take i host)) encodeZone of
                               Inl e \<Rightarrow> Inl e
                             | Inr host2 \<Rightarrow>
                                 (case unescape (drop i host) encodeHost of
                                    Inl e \<Rightarrow> Inl e
                                  | Inr host3 \<Rightarrow> Inr (host1 @ host2 @ host3))))
                   | None \<Rightarrow> unescape host encodeHost))
      else (case LastIndex host '':'' of
              Some i \<Rightarrow>
                let colonPort = drop i host in
                if \<not> validOptionalPort colonPort then Inl (InvalidPort colonPort)
                else unescape host encodeHost
            | None \<Rightarrow> unescape host encodeHost))"

definition parseAuthority :: "string \<Rightarrow> url_error + Userinfo option \<times> string" where
  "parseAuthority authority =
     (let i = LastIndex authority ''@'' in
      case (case i of None \<Rightarrow> parseHost authority | Some j \<Rightarrow> parseHost (drop (j + 1) authority)) of
        Inl e \<Rightarrow> Inl e
      | Inr host \<Rightarrow>
          (case i of
             None \<Rightarrow> Inr (None, host)
           | Some j \<Rightarrow>
               let userinfo = take j authority in
               if \<not> validUserinfo userinfo then Inl InvalidUserinfo
               else if \<not> Contains userinfo '':'' then
                 (case unescape userinfo encodeUserPassword of
                    Inl e \<Rightarrow> Inl e
                  | Inr u \<Rightarrow> Inr (Some (Userinfo u [] False), host))
               else
                 (case Cut userinfo '':'' of (username0, password0, _) \<Rightarrow>
                    (case unescape username0 encodeUserPassword of
                       Inl e \<Rightarrow> Inl e
                     | Inr u \<Rightarrow>
                         (case unescape password0 encodeUserPassword of
                            Inl e \<Rightarrow> Inl e
                          | Inr p \<Rightarrow> Inr (Some (Userinfo u p True), host))))))"

definition setPath :: "url_URL \<Rightarrow> string \<Rightarrow> url_error + url_URL" where
  "setPath u p = (case unescape p encodePath of Inl e \<Rightarrow> Inl e | Inr path \<Rightarrow> Inr (u\<lparr>Path := path\<rparr>))"

definition setFragment :: "url_URL \<Rightarrow> string \<Rightarrow> url_error + url_URL" where
  "setFragment u f = (case unescape f encodeFragment of Inl e \<Rightarrow> Inl e | Inr frag \<Rightarrow> Inr (u\<lparr>Fragment := frag\<rparr>))"

definition parse :: "string \<Rightarrow> url_error + url_URL" where
  "parse rawURL =
     (if stringContainsCTLByte rawURL then Inl InvalidControlCharacter
      else if rawURL = ''*'' then Inr (new_URL\<lparr>Path := ''*''\<rparr>)
      else case getScheme rawURL of
        Inl e \<Rightarrow> Inl e
      | Inr (scheme, rest0) \<Rightarrow>
          let url0 = new_URL\<lparr>Scheme := ToLower scheme\<rparr>;
              (url, rest) =
                 (if HasSuffix rest0 ''?'' \<and> count_list rest0 CHR ''?'' = 1
                  then (url0\<lparr>ForceQuery := True\<rparr>, butlast rest0)
                  else case Cut rest0 ''?'' of (r, q, _) \<Rightarrow> (url0\<lparr>RawQuery := q\<rparr>, r))
          in if \<not> HasPrefix rest ''/'' \<and> Scheme url \<noteq> [] then Inr (url\<lparr>Opaque := rest\<rparr>)
             else if \<not> HasPrefix rest ''/'' \<and> Contains (fst (Cut rest ''/'')) '':''
               then Inl FirstPathSegmentColon
             else if (Scheme url \<noteq> [] \<or> \<not> HasPrefix rest ''///'') \<and> HasPrefix rest ''//'' then
               (let authority0 = drop 2 rest;
                    (authority, rest') =
                       (case Index authority0 ''/'' of
                          Some i \<Rightarrow> (take i authority0, drop i authority0)
                        | None \<Rightarrow> (authority0, []))
                in case parseAuthority authority of
                     Inl e \<Rightarrow> Inl e
                   | Inr (user, host) \<Rightarrow> setPath (url\<lparr>User := user, Host := host\<rparr>) rest')
             else if Scheme url \<noteq> [] \<and> HasPrefix rest ''/'' then setPath (url\<lparr>OmitHost := True\<rparr>) rest
             else setPath url rest)"

definition url_Parse :: "string \<Rightarrow> url_Error + url_URL" where
  "url_Parse rawURL =
     (case Cut rawURL ''#'' of (u, frag, _) \<Rightarrow>
        (case parse u of
           Inl err \<Rightarrow> Inl (url_Error ''parse'' u err)
         | Inr url \<Rightarrow>
             if frag = [] then Inr url
             else (case setFragment url frag of
                     Inl err \<Rightarrow> Inl (url_Error ''parse'' rawURL err)
                   | Inr url' \<Rightarrow> Inr url')))"


subsection \<open>InsertIntoDB\<close>

text \<open>
  The table \<^verbatim>\<open>events\<close> holds the rows written so far, with the columns that the
  INSERT names. The server may refuse a row (no connection, a constraint): \<open>rejects\<close>
  gives the error then. \<^verbatim>\<open>json.Marshal\<close> is a parameter: \<open>Inl\<close> is its error.
  The logger and the connection are taken to be non-nil.
\<close>

record row =
  col_test_id :: string
  col_type :: string
  col_domain :: string
  col_payload :: string
  col_body :: bytes

record sql_DB =
  events :: "row list"
  rejects :: "row \<Rightarrow> string option"

definition db_Exec :: "sql_DB \<Rightarrow> row \<Rightarrow> string option \<times> sql_DB" where
  "db_Exec db r =
     (case rejects db r of
        Some err \<Rightarrow> (Some err, db)
      | None \<Rightarrow> (None, db\<lparr>events := events db @ [r]\<rparr>))"

text \<open>
  The two errors that \<^verbatim>\<open>InsertIntoDB\<close> returns: "failed to parse URL: ..." and
  "failed to insert into events table: ...".
\<close>

datatype insert_error = FailedToParseURL url_Error | FailedToInsert string

text \<open>
  \<^verbatim>\<open>func InsertIntoDB(logger, db, testID, event struct{...}) error\<close>. The result is
  the error (\<open>None\<close> is nil) and the database. \<^verbatim>\<open>strings.Split(host, ":")[0]\<close> is
  \<open>hd\<close>: \<open>Split\<close> returns at least one piece (lemma \<open>Split_nonempty\<close>).
\<close>

definition InsertIntoDB ::
  "(content \<Rightarrow> string + string) \<Rightarrow> sql_DB \<Rightarrow> string \<Rightarrow> event \<Rightarrow> insert_error option \<times> sql_DB" where
  "InsertIntoDB json_Marshal db testID event =
     (let eventJSON = (case json_Marshal (event.Content event) of Inl err \<Rightarrow> [] | Inr j \<Rightarrow> j)
      in case url_Parse (event.URL event) of
           Inl err \<Rightarrow> (Some (FailedToParseURL err), db)
         | Inr parsedURL \<Rightarrow>
             (let host = Host parsedURL;
                  host = hd (Split host CHR '':'')
              in case db_Exec db \<lparr>col_test_id = testID, col_type = event.Type event, col_domain = host,
                                   col_payload = eventJSON, col_body = event.Body event\<rparr> of
                   (Some err, db') \<Rightarrow> (Some (FailedToInsert err), db')
                 | (None, db') \<Rightarrow> (None, db')))"

section \<open>Properties of the event store\<close>

lemma SetBody_loop_all:
  "SetBody_loop (map Some es) acc = Inr (acc @ concat (map entry_Bytes es))"
  by (induction es arbitrary: acc) simp_all

text \<open>
  C4: for a Request of kind "request" whose payload is a request event with a
  list of post-data entries, SetBody sets the body to the concatenation of the
  entries' pieces in order and changes nothing else; for the entries "ab", "cd"
  the body is "abcd".
\<close>

theorem SetBody_concatenates:
  assumes "Request.Type r = ''request''"
    and "Request.Content r = WillBeSent ev"
    and "sent_Request ev = Some rq"
    and "request_PostDataEntries rq = map Some es"
  shows "SetBody r = Inr (r\<lparr>Request.Body := concat (map entry_Bytes es)\<rparr>)"
  using assms by (simp add: SetBody_def SetBody_loop_all)

theorem SetBody_concatenates_witness:
  "SetBody \<lparr>Request.RequestID = ''1'', Request.Type = ''request'', Request.URL = ''http://a/'',
            Request.Content = WillBeSent (EventRequestWillBeSent ''1''
              (Some (network_Request ''http://a/'' [Some (PostDataEntry ''ab''), Some (PostDataEntry ''cd'')]))),
            Request.Body = []\<rparr>
   = Inr \<lparr>Request.RequestID = ''1'', Request.Type = ''request'', Request.URL = ''http://a/'',
            Request.Content = WillBeSent (EventRequestWillBeSent ''1''
              (Some (network_Request ''http://a/'' [Some (PostDataEntry ''ab''), Some (PostDataEntry ''cd'')]))),
            Request.Body = ''abcd''\<rparr>"
  using SetBody_concatenates
    [of "\<lparr>Request.RequestID = ''1'', Request.Type = ''request'', Request.URL = ''http://a/'',
            Request.Content = WillBeSent (EventRequestWillBeSent ''1''
              (Some (network_Request ''http://a/'' [Some (PostDataEntry ''ab''), Some (PostDataEntry ''cd'')]))),
            Request.Body = []\<rparr>"
        "EventRequestWillBeSent ''1''
              (Some (network_Request ''http://a/'' [Some (PostDataEntry ''ab''), Some (PostDataEntry ''cd'')]))"
        "network_Request ''http://a/'' [Some (PostDataEntry ''ab''), Some (PostDataEntry ''cd'')]"
        "[PostDataEntry ''ab'', PostDataEntry ''cd'']"]
  by simp

text \<open>
  C10: for a Request whose Type is not "request", SetBody returns at once: it
  does not read the payload (so no payload makes it panic) and the Request,
  its Body included, is unchanged.
\<close>

theorem SetBody_other_type_noop:
  "Request.Type r \<noteq> ''request'' \<Longrightarrow> SetBody r = Inr r"
  by (simp add: SetBody_def)

theorem SetBody_other_type_noop_witness:
  "SetBody \<lparr>Request.RequestID = ''7'', Request.Type = ''response'', Request.URL = ''http://a/'',
            Request.Content = NilContent, Request.Body = ''kept''\<rparr>
   = Inr \<lparr>Request.RequestID = ''7'', Request.Type = ''response'', Request.URL = ''http://a/'',
            Request.Content = NilContent, Request.Body = ''kept''\<rparr>"
  using SetBody_other_type_noop
    [of "\<lparr>Request.RequestID = ''7'', Request.Type = ''response'', Request.URL = ''http://a/'',
            Request.Content = NilContent, Request.Body = ''kept''\<rparr>"]
  by simp

subsection \<open>The response map as an upsert\<close>

lemma map_entry_Add:
  "map_entry (Responses_Add r x) k = (if k = RequestID x then Some x else map_entry r k)"
  by (cases "ResponseMap r") (simp_all add: Responses_Add_def map_entry_def)

lemma map_entry_foldl_Add:
  "map_entry (foldl Responses_Add r xs) k =
     (if \<exists>x\<in>set xs. RequestID x = k then Some (last (filter (\<lambda>x. RequestID x = k) xs))
      else map_entry r k)"
proof (induction xs rule: rev_induct)
  case Nil
  then show ?case by simp
next
  case (snoc x xs)
  then show ?case by (auto simp: map_entry_Add)
qed

lemma Responses_Add_twice: "Responses_Add (Responses_Add r x) x = Responses_Add r x"
  by (cases "ResponseMap r") (simp_all add: Responses_Add_def)

text \<open>
  C6: after any sequence of Add calls, a requestID that was added has one entry
  in the map, the response added last under it (last write wins); a requestID
  that was not added keeps what it had; and adding the same response twice gives
  the same collection as adding it once.
\<close>

theorem Responses_Add_upsert:
  "(\<forall>k. (\<exists>x\<in>set xs. RequestID x = k) \<longrightarrow>
        map_entry (foldl Responses_Add r xs) k = Some (last (filter (\<lambda>x. RequestID x = k) xs)))
   \<and> (\<forall>k. (\<forall>x\<in>set xs. RequestID x \<noteq> k) \<longrightarrow> map_entry (foldl Responses_Add r xs) k = map_entry r k)
   \<and> Responses_Add (Responses_Add r x) x = Responses_Add r x"
  by (simp add: map_entry_foldl_Add Responses_Add_twice)

theorem Responses_Add_upsert_witness:
  "map_entry (foldl Responses_Add \<lparr>mu = False, ResponseMap = None\<rparr>
       [\<lparr>RequestID = ''1'', Type = ''response'', URL = ''http://a/'', Content = NilContent, Body = []\<rparr>,
        \<lparr>RequestID = ''2'', Type = ''response'', URL = ''http://b/'', Content = NilContent, Body = []\<rparr>,
        \<lparr>RequestID = ''1'', Type = ''response'', URL = ''http://c/'', Content = NilContent, Body = []\<rparr>]) ''1''
     = Some \<lparr>RequestID = ''1'', Type = ''response'', URL = ''http://c/'', Content = NilContent, Body = []\<rparr>
   \<and> map_entry (foldl Responses_Add \<lparr>mu = False, ResponseMap = None\<rparr>
       [\<lparr>RequestID = ''1'', Type = ''response'', URL = ''http://a/'', Content = NilContent, Body = []\<rparr>,
        \<lparr>RequestID = ''2'', Type = ''response'', URL = ''http://b/'', Content = NilContent, Body = []\<rparr>,
        \<lparr>RequestID = ''1'', Type = ''response'', URL = ''http://c/'', Content = NilContent, Body = []\<rparr>]) ''3''
     = None"
  using Responses_Add_upsert
    [of "[\<lparr>RequestID = ''1'', Type = ''response'', URL = ''http://a/'', Content = NilContent, Body = []\<rparr>,
          \<lparr>RequestID = ''2'', Type = ''response'', URL = ''http://b/'', Content = NilContent, Body = []\<rparr>,
          \<lparr>RequestID = ''1'', Type = ''response'', URL = ''http://c/'', Content = NilContent, Body = []\<rparr>]"
        "\<lparr>mu = False, ResponseMap = None\<rparr>"]
  by (simp add: map_entry_def)

subsection \<open>A failed fetch\<close>

text \<open>
  C7: if the retrieval call made by GetResponseBody fails, GetResponseBody
  returns an error and leaves the response behind its argument and the whole
  collection (map and mutex) as they were; the browser has been called exactly
  once. The watch loop, which drops the error, returns the collection it found
  after that single call.
\<close>

theorem GetResponseBody_failure:
  assumes "\<forall>body. answer b (RequestID r) \<noteq> Fetched body"
  shows "(\<exists>err. GetResponseBody b r responses =
            Returns (Some err, r, responses, b\<lparr>calls := calls b @ [(RequestID r, answer b (RequestID r))]\<rparr>))
       \<and> (\<not> mu responses \<and> r = map_index responses (finished_RequestID event) \<longrightarrow>
            watch_event b event responses =
              Returns (responses, b\<lparr>calls := calls b @ [(RequestID r, answer b (RequestID r))]\<rparr>))"
proof -
  let ?b' = "b\<lparr>calls := calls b @ [(RequestID r, answer b (RequestID r))]\<rparr>"
  from assms obtain err where
    g: "\<And>rs. GetResponseBody b r rs = Returns (Some err, r, rs, ?b')"
    by (cases "answer b (RequestID r)")
       (simp_all add: GetResponseBody_def fetch_body_def network_GetResponseBody_def)
  have "watch_event b event responses = Returns (responses, ?b')"
    if "\<not> mu responses" and "r = map_index responses (finished_RequestID event)"
  proof -
    have "map_index (responses\<lparr>mu := True\<rparr>) (finished_RequestID event) = r"
      using that(2) by (simp add: map_index_def map_entry_def)
    moreover have "Unlock (responses\<lparr>mu := True\<rparr>) = responses"
      using that(1) by (simp add: Unlock_def)
    ultimately show ?thesis
      using that(1) g by (simp add: watch_event_def Lock_def)
  qed
  with g show ?thesis by blast
qed

theorem GetResponseBody_failure_witness:
  "GetResponseBody \<lparr>answer = (\<lambda>k. DoError ''No resource with given identifier found''), calls = []\<rparr>
      \<lparr>RequestID = ''1'', Type = ''response'', URL = ''http://a/'', Content = NilContent, Body = []\<rparr>
      \<lparr>mu = False, ResponseMap = Some [''1'' \<mapsto>
         \<lparr>RequestID = ''1'', Type = ''response'', URL = ''http://a/'', Content = NilContent, Body = []\<rparr>]\<rparr>
   = Returns (Some ''could not get response body: failed to get response body: No resource with given identifier found'',
      \<lparr>RequestID = ''1'', Type = ''response'', URL = ''http://a/'', Content = NilContent, Body = []\<rparr>,
      \<lparr>mu = False, ResponseMap = Some [''1'' \<mapsto>
         \<lparr>RequestID = ''1'', Type = ''response'', URL = ''http://a/'', Content = NilContent, Body = []\<rparr>]\<rparr>,
      \<lparr>answer = (\<lambda>k. DoError ''No resource with given identifier found''),
       calls = [(''1'', DoError ''No resource with given identifier found'')]\<rparr>)
  \<and> watch_event \<lparr>answer = (\<lambda>k. DoError ''No resource with given identifier found''), calls = []\<rparr>
      (EventLoadingFinished ''1'')
      \<lparr>mu = False, ResponseMap = Some [''1'' \<mapsto>
         \<lparr>RequestID = ''1'', Type = ''response'', URL = ''http://a/'', Content = NilContent, Body = []\<rparr>]\<rparr>
   = Returns (\<lparr>mu = False, ResponseMap = Some [''1'' \<mapsto>
         \<lparr>RequestID = ''1'', Type = ''response'', URL = ''http://a/'', Content = NilContent, Body = []\<rparr>]\<rparr>,
      \<lparr>answer = (\<lambda>k. DoError ''No resource with given identifier found''),
       calls = [(''1'', DoError ''No resource with given identifier found'')]\<rparr>)"
  using GetResponseBody_failure
    [of "\<lparr>answer = (\<lambda>k. DoError ''No resource with given identifier found''), calls = []\<rparr>"
        "\<lparr>RequestID = ''1'', Type = ''response'', URL = ''http://a/'', Content = NilContent, Body = []\<rparr>"
        "\<lparr>mu = False, ResponseMap = Some [''1'' \<mapsto>
           \<lparr>RequestID = ''1'', Type = ''response'', URL = ''http://a/'', Content = NilContent, Body = []\<rparr>]\<rparr>"
        "EventLoadingFinished ''1''"]
  by (simp add: GetResponseBody_def fetch_body_def network_GetResponseBody_def map_index_def map_entry_def)

subsection \<open>A notification with no entry in the map\<close>

text \<open>
  With the map allocated and the mutex free: when the notification's requestID
  has no entry, the loop reads the zero-valued Response, whose requestID is
  empty; the browser is asked for the body of the empty requestID, and if that
  call succeeds the body is stored under the empty key. Every other key, the
  notification's own when it is not empty, is left without change.
\<close>

lemma watch_event_missing:
  assumes "map_entry responses (finished_RequestID event) = None"
    and "ResponseMap responses = Some m"
    and "\<not> mu responses"
    and "answer b [] = Fetched body"
  shows "map_index responses (finished_RequestID event) = zero_Response \<and> RequestID zero_Response = []
    \<and> watch_event b event responses =
        Returns (responses\<lparr>ResponseMap := Some (m([] \<mapsto> zero_Response\<lparr>Body := body\<rparr>))\<rparr>,
                 b\<lparr>calls := calls b @ [([], Fetched body)]\<rparr>)
    \<and> (finished_RequestID event \<noteq> [] \<longrightarrow>
          (m([] \<mapsto> zero_Response\<lparr>Body := body\<rparr>)) (finished_RequestID event) = None)"
  using assms
  by (simp add: watch_event_def GetResponseBody_def fetch_body_def network_GetResponseBody_def
      Lock_def Unlock_def store_response_def map_index_def map_entry_def zero_Response_def)

lemma watch_event_missing_witness:
  "watch_event \<lparr>answer = (\<lambda>k. Fetched ''body''), calls = []\<rparr> (EventLoadingFinished ''7'')
      \<lparr>mu = False, ResponseMap = Some Map.empty\<rparr>
   = Returns (\<lparr>mu = False, ResponseMap = Some [[] \<mapsto>
        \<lparr>RequestID = [], Type = [], URL = [], Content = NilContent, Body = ''body''\<rparr>]\<rparr>,
      \<lparr>answer = (\<lambda>k. Fetched ''body''), calls = [([], Fetched ''body'')]\<rparr>)
   \<and> [[] \<mapsto> \<lparr>RequestID = [], Type = [], URL = [], Content = NilContent, Body = ''body''\<rparr>] ''7'' = None"
  using watch_event_missing
    [of "\<lparr>mu = False, ResponseMap = Some Map.empty\<rparr>" "EventLoadingFinished ''7''" Map.empty
        "\<lparr>answer = (\<lambda>k. Fetched ''body''), calls = []\<rparr>" "''body''"]
  by (simp add: map_entry_def zero_Response_def)

text \<open>
  C9 on the code. While the map is still nil (no response has been added), the
  notification's requestID has no entry and the loop reads the zero-valued
  Response; the fetch succeeds, and the assignment of line 141 panics
  (assignment to entry in nil map) instead of filing the body under the empty
  key: \<^verbatim>\<open>GetResponseBody\<close> has no nil test, \<^verbatim>\<open>Responses.Add\<close> has one.
\<close>

theorem watch_event_missing_nil_map:
  "map_entry \<lparr>mu = False, ResponseMap = None\<rparr> (finished_RequestID (EventLoadingFinished ''7'')) = None
   \<and> watch_event \<lparr>answer = (\<lambda>k. Fetched ''body''), calls = []\<rparr> (EventLoadingFinished ''7'')
        \<lparr>mu = False, ResponseMap = None\<rparr> = Panics NilMapAssignment"
  by (simp add: watch_event_def GetResponseBody_def fetch_body_def network_GetResponseBody_def
      Lock_def Unlock_def store_response_def map_index_def map_entry_def zero_Response_def)

section \<open>Properties of the interleaved goroutines\<close>

subsection \<open>The sequential reading agrees with the steps\<close>

text \<open>
  Run with nothing in between, the steps of the watch goroutine for one
  notification do what \<open>watch_event\<close> does.
\<close>

lemma watch_event_run:
  assumes "watcher s = Receiving" and "crashed s = None"
    and "watch_event (browser s) event (resps s) = Returns (rs', b')"
  shows "\<exists>n. run (LoadingFinished event # replicate n Watcher) s
               = Some (s\<lparr>resps := rs', browser := b'\<rparr>)"
proof (cases "fst (fetch_body (browser s) (map_index (resps s) (finished_RequestID event)))")
  case (Inl err)
  with assms have "run (LoadingFinished event # replicate 4 Watcher) s
                     = Some (s\<lparr>resps := rs', browser := b'\<rparr>)"
    by (auto simp: numeral_eq_Suc step_def watcher_step_def watch_event_def GetResponseBody_def
        Lock_def Unlock_def map_index_def map_entry_def
        split: if_splits prod.splits sum.splits option.splits)
  then show ?thesis by blast
next
  case (Inr r')
  with assms have "run (LoadingFinished event # replicate 7 Watcher) s
                     = Some (s\<lparr>resps := rs', browser := b'\<rparr>)"
    by (auto simp: numeral_eq_Suc step_def watcher_step_def watch_event_def GetResponseBody_def
        Lock_def Unlock_def map_index_def map_entry_def store_response_def
        split: if_splits prod.splits sum.splits option.splits)
  then show ?thesis by blast
qed

subsection \<open>Bodies that are in order\<close>



lemma body_ok_answer [simp]: "body_ok (b\<lparr>answer := f\<rparr>) r = body_ok b r"
  by (simp add: body_ok_def)



subsection \<open>An update that is lost\<close>

lemmas run_defs = step_def watcher_step_def on_ResponseReceived_def start_def Lock_def Unlock_def
  map_index_def map_entry_def Responses_Add_def fetch_body_def network_GetResponseBody_def
  store_response_def zero_Response_def

text \<open>
  C1 on the code. A response for requestID 1 arrives, then its load-finished
  notification. The watch loop locks, reads the entry and unlocks: the mutex is
  free again and the loop holds a copy. A second response for requestID 1
  arrives and is added. The fetch succeeds, and the loop locks and writes its
  copy, with the body, over the second response: the entry has the first
  response's URL and payload, and the second update is gone. The read and the
  write are in two critical sections, and (last equation) Add runs while the
  loop holds the mutex, since Add never takes it.
\<close>

theorem lost_update_interleaving:
  "run [ResponseReceived (EventResponseReceived ''1'' (Some (network_Response ''http://a/''))),
        LoadingFinished (EventLoadingFinished ''1''),
        Watcher, Watcher, Watcher,
        ResponseReceived (EventResponseReceived ''1'' (Some (network_Response ''http://b/''))),
        Watcher, Watcher, Watcher, Watcher]
       (start (\<lambda>k. Fetched ''body''))
   = Some \<lparr>resps = \<lparr>mu = False, ResponseMap = Some [''1'' \<mapsto>
               \<lparr>RequestID = ''1'', Type = ''response'', URL = ''http://a/'',
                Content = Received (EventResponseReceived ''1'' (Some (network_Response ''http://a/''))),
                Body = ''body''\<rparr>]\<rparr>,
            browser = \<lparr>answer = (\<lambda>k. Fetched ''body''), calls = [(''1'', Fetched ''body'')]\<rparr>,
            watcher = Receiving, crashed = None\<rparr>
  \<and> run [ResponseReceived (EventResponseReceived ''1'' (Some (network_Response ''http://a/''))),
        LoadingFinished (EventLoadingFinished ''1''),
        Watcher, Watcher, Watcher]
       (start (\<lambda>k. Fetched ''body''))
   = Some \<lparr>resps = \<lparr>mu = False, ResponseMap = Some [''1'' \<mapsto>
               \<lparr>RequestID = ''1'', Type = ''response'', URL = ''http://a/'',
                Content = Received (EventResponseReceived ''1'' (Some (network_Response ''http://a/''))),
                Body = []\<rparr>]\<rparr>,
            browser = \<lparr>answer = (\<lambda>k. Fetched ''body''), calls = []\<rparr>,
            watcher = AtFetch
               \<lparr>RequestID = ''1'', Type = ''response'', URL = ''http://a/'',
                Content = Received (EventResponseReceived ''1'' (Some (network_Response ''http://a/''))),
                Body = []\<rparr>,
            crashed = None\<rparr>
  \<and> run [ResponseReceived (EventResponseReceived ''1'' (Some (network_Response ''http://a/''))),
        LoadingFinished (EventLoadingFinished ''1''),
        Watcher,
        ResponseReceived (EventResponseReceived ''1'' (Some (network_Response ''http://b/'')))]
       (start (\<lambda>k. Fetched ''body''))
   = Some \<lparr>resps = \<lparr>mu = True, ResponseMap = Some [''1'' \<mapsto>
               \<lparr>RequestID = ''1'', Type = ''response'', URL = ''http://b/'',
                Content = Received (EventResponseReceived ''1'' (Some (network_Response ''http://b/''))),
                Body = []\<rparr>]\<rparr>,
            browser = \<lparr>answer = (\<lambda>k. Fetched ''body''), calls = []\<rparr>,
            watcher = AtLookup (EventLoadingFinished ''1''), crashed = None\<rparr>"
  by (simp add: run_defs)

section \<open>Properties of the goroutines with Add taken apart\<close>

lemmas conc_defs = conc_step_def conc_watcher_step_def listener_step_def spawn_def conc_start_def
  view_def mapassign_begin_def mapassign_insert_def store_value_def mapaccess_def
  map_entry_def fetch_body_def network_GetResponseBody_def zero_Response_def

subsection \<open>Agreement with the sequential functions\<close>

text \<open>
  While no assignment to the map is under way, the goroutine of a
  response-received event run with nothing in between does to the map what
  \<open>Responses_Add\<close> does, and the watch goroutine run with nothing in between
  does what \<open>watch_event\<close> does.
\<close>

lemma listener_alone_is_Add:
  assumes "c_crashed s = None"
    and "\<forall>p. c_map s = Some p \<longrightarrow> p < length (c_heap s) \<and> \<not> writing (c_heap s ! p)"
    and "received_Response ev = Some rsp"
  shows "\<exists>n s'. conc_run (Spawn ev # replicate n (Listener (length (c_listeners s)))) s = Some s'
            \<and> c_crashed s' = None
            \<and> ResponseMap (view s') = ResponseMap (Responses_Add (view s)
                 \<lparr>RequestID = received_RequestID ev, Type = ''response'', URL = response_URL rsp,
                  Content = Received ev, Body = []\<rparr>)"
proof (cases "c_map s")
  case None
  let ?sched = "Spawn ev # replicate 5 (Listener (length (c_listeners s)))"
  from assms None obtain s' where "conc_run ?sched s = Some s'" "c_crashed s' = None"
    "ResponseMap (view s') = ResponseMap (Responses_Add (view s)
                 \<lparr>RequestID = received_RequestID ev, Type = ''response'', URL = response_URL rsp,
                  Content = Received ev, Body = []\<rparr>)"
    by (simp add: numeral_eq_Suc conc_step_def spawn_def listener_step_def view_def
        Responses_Add_def nth_append mapassign_begin_def mapassign_insert_def store_value_def)
  then show ?thesis by blast
next
  case (Some p)
  let ?sched = "Spawn ev # replicate 4 (Listener (length (c_listeners s)))"
  from assms Some obtain s' where "conc_run ?sched s = Some s'" "c_crashed s' = None"
    "ResponseMap (view s') = ResponseMap (Responses_Add (view s)
                 \<lparr>RequestID = received_RequestID ev, Type = ''response'', URL = response_URL rsp,
                  Content = Received ev, Body = []\<rparr>)"
    by (simp add: numeral_eq_Suc conc_step_def spawn_def listener_step_def view_def
        Responses_Add_def nth_append mapassign_begin_def mapassign_insert_def store_value_def)
  then show ?thesis by blast
qed


lemma mapaccess_is_map_index:
  assumes "\<forall>p. c_map s = Some p \<longrightarrow> \<not> writing (c_heap s ! p)"
  shows "mapaccess k (map_option (\<lambda>p. c_heap s ! p) (c_map s)) = Inr (map_index (view s) k)"
  using assms by (cases "c_map s") (auto simp: mapaccess_def map_index_def map_entry_def view_def)

lemma watcher_alone_is_watch_event:
  assumes "c_watcher s = WReceiving" and "c_crashed s = None"
    and "\<forall>p. c_map s = Some p \<longrightarrow> p < length (c_heap s) \<and> \<not> writing (c_heap s ! p)"
    and "watch_event (c_browser s) event (view s) = Returns (rs', b')"
  shows "\<exists>n s'. conc_run (Notify event # replicate n WatcherStep) s = Some s'
            \<and> c_crashed s' = None \<and> view s' = rs' \<and> c_browser s' = b'"
proof -
  let ?r = "map_index (view s) (finished_RequestID event)"
  obtain res b1 where f: "fetch_body (c_browser s) ?r = (res, b1)"
    by (cases "fetch_body (c_browser s) ?r")
  from assms(4) have mu: "\<not> c_mu s"
    by (auto simp: watch_event_def Lock_def view_def split: if_splits)
  have r: "map_index (view s\<lparr>mu := True\<rparr>) (finished_RequestID event) = ?r"
    by (simp add: map_index_def map_entry_def)
  have acc: "mapaccess (finished_RequestID event) (map_option (\<lambda>p. c_heap s ! p) (c_map s)) = Inr ?r"
    using assms(3) by (intro mapaccess_is_map_index) simp
  have three: "conc_run (Notify event # replicate 3 WatcherStep @ rest) s
        = conc_run rest (s\<lparr>c_mu := False, c_watcher := WFetch ?r\<rparr>)" for rest
    using assms(1,2) mu acc
    by (simp add: numeral_eq_Suc conc_step_def conc_watcher_step_def)
  show ?thesis
  proof (cases res)
    case (Inl err)
    from assms(4) f mu r Inl have eq: "rs' = view s" "b' = b1"
      by (simp_all add: watch_event_def GetResponseBody_def Lock_def Unlock_def view_def)
    have "conc_run (Notify event # replicate 3 WatcherStep @ [WatcherStep]) s
            = Some (s\<lparr>c_mu := False, c_browser := b1, c_watcher := WReceiving\<rparr>)"
      using assms(2) f Inl by (subst three) (simp add: conc_step_def conc_watcher_step_def)
    then have "conc_run (Notify event # replicate 4 WatcherStep) s
            = Some (s\<lparr>c_mu := False, c_browser := b1, c_watcher := WReceiving\<rparr>)"
      by (simp add: numeral_eq_Suc)
    moreover have "view (s\<lparr>c_mu := False, c_browser := b1, c_watcher := WReceiving\<rparr>) = rs'"
      using mu eq by (simp add: view_def)
    ultimately show ?thesis using assms(2) eq by fastforce
  next
    case (Inr r')
    from assms(4) f mu r Inr obtain p where p: "c_map s = Some p"
      and eq: "rs' = \<lparr>mu = False, ResponseMap = Some ((entries (c_heap s ! p))(RequestID r' \<mapsto> r'))\<rparr>"
              "b' = b1"
      by (cases "c_map s")
         (auto simp: watch_event_def GetResponseBody_def Lock_def Unlock_def view_def
            store_response_def)
    from assms(3) p have free: "\<not> writing (c_heap s ! p)" and len: "p < length (c_heap s)"
      by simp_all
    let ?s' = "s\<lparr>c_mu := False,
                  c_heap := (c_heap s)[p := \<lparr>writing = False,
                              entries = (entries (c_heap s ! p))(RequestID r' \<mapsto> r')\<rparr>],
                  c_browser := b1, c_watcher := WReceiving\<rparr>"
    have "conc_run (Notify event # replicate 3 WatcherStep @ replicate 6 WatcherStep) s = Some ?s'"
      using assms(2) f Inr p free len
      by (subst three)
         (simp add: numeral_eq_Suc conc_step_def conc_watcher_step_def
            mapassign_begin_def mapassign_insert_def store_value_def)
    then have run: "conc_run (Notify event # replicate 9 WatcherStep) s = Some ?s'"
      by (simp add: numeral_eq_Suc)
    have "view ?s' = rs'" using p eq len by (simp add: view_def)
    with run assms(2) eq show ?thesis by fastforce
  qed
qed


subsection \<open>What the interleavings can do\<close>

text \<open>
  Two goroutines in \<^verbatim>\<open>Add\<close> at once end the process with "concurrent map
  writes"; the map read of the watch loop during an assignment ends it with
  "concurrent map read and map write"; and two goroutines that both saw a nil
  map each allocate one, the second replacing the first with its entry.
\<close>

lemma concurrent_map_writes_reachable:
  "map_option c_crashed
     (conc_run [Spawn (EventResponseReceived ''1'' (Some (network_Response ''http://a/''))),
                Spawn (EventResponseReceived ''2'' (Some (network_Response ''http://b/''))),
                Listener 0, Listener 0, Listener 0,
                Listener 1, Listener 1]
        (conc_start f))
   = Some (Some (Fatal ConcurrentMapWrites))"
  by (simp add: conc_defs)

lemma concurrent_read_and_write_reachable:
  "map_option c_crashed
     (conc_run [Spawn (EventResponseReceived ''1'' (Some (network_Response ''http://a/''))),
                Listener 0, Listener 0, Listener 0, Listener 0, Listener 0,
                Spawn (EventResponseReceived ''2'' (Some (network_Response ''http://b/''))),
                Notify (EventLoadingFinished ''1''),
                Listener 1, Listener 1,
                WatcherStep, WatcherStep]
        (conc_start f))
   = Some (Some (Fatal ConcurrentMapReadAndMapWrite))"
  by (simp add: conc_defs)

lemma racing_make_drops_entry:
  "map_option (\<lambda>s. (map_entry (view s) ''1'', map_entry (view s) ''2'', c_crashed s))
     (conc_run [Spawn (EventResponseReceived ''1'' (Some (network_Response ''http://a/''))),
                Spawn (EventResponseReceived ''2'' (Some (network_Response ''http://b/''))),
                Listener 0, Listener 1,
                Listener 0, Listener 0, Listener 0, Listener 0,
                Listener 1, Listener 1, Listener 1, Listener 1]
        (conc_start f))
   = Some (None,
           Some \<lparr>RequestID = ''2'', Type = ''response'', URL = ''http://b/'',
                Content = Received (EventResponseReceived ''2'' (Some (network_Response ''http://b/''))),
                Body = []\<rparr>,
           None)"
  by (simp add: conc_defs)

subsection \<open>Bodies in the map\<close>



lemma heap_ok_answer [simp]: "heap_ok (b\<lparr>answer := f\<rparr>) hs = heap_ok b hs"
  by (simp add: heap_ok_def hmap_ok_def)











lemma listeners_ok_answer [simp]: "listeners_ok (b\<lparr>answer := f\<rparr>) n ls = listeners_ok b n ls"
  by (simp add: listeners_ok_def listener_ok_def)















section \<open>Properties of the persistence sink\<close>

lemma Split_from_nonempty: "Split_from sep piece s \<noteq> []"
  by (induction s arbitrary: piece) simp_all

lemma Split_nonempty: "Split s sep \<noteq> []"
  by (simp add: Split_def Split_from_nonempty)

lemma hd_Split_from: "hd (Split_from sep piece s) = piece @ takeWhile (\<lambda>c. c \<noteq> sep) s"
  by (induction s arbitrary: piece) simp_all

lemma hd_Split: "hd (Split s sep) = takeWhile (\<lambda>c. c \<noteq> sep) s"
  by (simp add: Split_def hd_Split_from)

lemmas url_defs = url_Parse_def parse_def Cut_def HasPrefix_def HasSuffix_def Contains_def
  getScheme_def between_def ToLower_def stringContainsCTLByte_def new_URL_def parseAuthority_def
  parseHost_def validOptionalPort_def validUserinfo_def unescape_def setPath_def setFragment_def
  shouldEscape_encodeHost_def ishex_def unhex_def

text \<open>
  What is stored as the hostname when the URL parses and the server takes the
  row: the bytes of \<^verbatim>\<open>parsedURL.Host\<close> before its first colon.
\<close>

lemma InsertIntoDB_domain:
  assumes "url_Parse (event.URL ev) = Inr u"
    and "rejects db \<lparr>col_test_id = testID, col_type = event.Type ev,
            col_domain = takeWhile (\<lambda>c. c \<noteq> CHR '':'') (Host u),
            col_payload = (case json_Marshal (event.Content ev) of Inl err \<Rightarrow> [] | Inr j \<Rightarrow> j),
            col_body = event.Body ev\<rparr> = None"
  shows "InsertIntoDB json_Marshal db testID ev =
     (None, db\<lparr>events := events db @ [\<lparr>col_test_id = testID, col_type = event.Type ev,
            col_domain = takeWhile (\<lambda>c. c \<noteq> CHR '':'') (Host u),
            col_payload = (case json_Marshal (event.Content ev) of Inl err \<Rightarrow> [] | Inr j \<Rightarrow> j),
            col_body = event.Body ev\<rparr>]\<rparr>)"
  using assms by (simp add: InsertIntoDB_def db_Exec_def hd_Split Let_def)

subsection \<open>A URL that does not parse\<close>

text \<open>
  C3, as the code has it: for every event whose URL \<^verbatim>\<open>url.Parse\<close> refuses,
  InsertIntoDB returns the URL-parse error and the table is unchanged, whatever
  the payload and the database are. The witness is a URL whose scheme is
  missing before the colon, which \<^verbatim>\<open>url.Parse\<close> refuses with "missing protocol
  scheme".
\<close>

theorem InsertIntoDB_parse_error:
  assumes "url_Parse (event.URL ev) = Inl err"
  shows "InsertIntoDB json_Marshal db testID ev = (Some (FailedToParseURL err), db)"
  using assms by (simp add: InsertIntoDB_def)

theorem InsertIntoDB_parse_error_witness:
  "InsertIntoDB (\<lambda>c. Inr ''null'') \<lparr>events = [], rejects = (\<lambda>r. None)\<rparr> ''t1''
      \<lparr>event.RequestID = ''1'', event.Type = ''request'', event.URL = ''://example.com'',
       event.Content = NilContent, event.Body = []\<rparr>
   = (Some (FailedToParseURL (url_Error ''parse'' ''://example.com'' MissingProtocolScheme)),
      \<lparr>events = [], rejects = (\<lambda>r. None)\<rparr>)"
  using InsertIntoDB_parse_error
    [of "\<lparr>event.RequestID = ''1'', event.Type = ''request'', event.URL = ''://example.com'',
       event.Content = NilContent, event.Body = []\<rparr>"
       "url_Error ''parse'' ''://example.com'' MissingProtocolScheme"
       "\<lambda>c. Inr ''null''" "\<lparr>events = [], rejects = (\<lambda>r. None)\<rparr>" "''t1''"]
  by (simp add: url_defs)

text \<open>
  C3 as stated fails for a URL that has no scheme at all: \<^verbatim>\<open>url.Parse\<close> takes
  \<^verbatim>\<open>example.com/path\<close> for a relative reference with an empty host, so no error is
  returned and a row with an empty hostname is written.
\<close>

theorem InsertIntoDB_missing_scheme_accepted:
  "InsertIntoDB (\<lambda>c. Inr ''null'') \<lparr>events = [], rejects = (\<lambda>r. None)\<rparr> ''t1''
      \<lparr>event.RequestID = ''1'', event.Type = ''request'', event.URL = ''example.com/path'',
       event.Content = NilContent, event.Body = []\<rparr>
   = (None, \<lparr>events = [\<lparr>col_test_id = ''t1'', col_type = ''request'', col_domain = [],
                         col_payload = ''null'', col_body = []\<rparr>],
             rejects = (\<lambda>r. None)\<rparr>)"
  by (simp add: InsertIntoDB_def db_Exec_def Split_def url_defs)

subsection \<open>The hostname that is stored\<close>

text \<open>
  C5 on the code. For \<^verbatim>\<open>http://[::1]:8080/\<close> the URL parses, its host is
  \<^verbatim>\<open>[::1]:8080\<close>, and the piece before the first colon is stored: an opening
  bracket, not the host with the port taken off. For the URL
  \<^verbatim>\<open>https://example.com:8443/path\<close>, the stored hostname is \<^verbatim>\<open>example.com\<close>.
\<close>

theorem InsertIntoDB_ipv6_host:
  "InsertIntoDB (\<lambda>c. Inr ''null'') \<lparr>events = [], rejects = (\<lambda>r. None)\<rparr> ''t1''
      \<lparr>event.RequestID = ''1'', event.Type = ''request'', event.URL = ''http://[::1]:8080/'',
       event.Content = NilContent, event.Body = []\<rparr>
   = (None, \<lparr>events = [\<lparr>col_test_id = ''t1'', col_type = ''request'', col_domain = ''['',
                         col_payload = ''null'', col_body = []\<rparr>],
             rejects = (\<lambda>r. None)\<rparr>)
  \<and> InsertIntoDB (\<lambda>c. Inr ''null'') \<lparr>events = [], rejects = (\<lambda>r. None)\<rparr> ''t1''
      \<lparr>event.RequestID = ''1'', event.Type = ''request'', event.URL = ''https://example.com:8443/path'',
       event.Content = NilContent, event.Body = []\<rparr>
   = (None, \<lparr>events = [\<lparr>col_test_id = ''t1'', col_type = ''request'', col_domain = ''example.com'',
                         col_payload = ''null'', col_body = []\<rparr>],
             rejects = (\<lambda>r. None)\<rparr>)"
  by (simp add: InsertIntoDB_def db_Exec_def Split_def url_defs)

subsection \<open>A payload that does not serialize\<close>

text \<open>
  C8: when \<^verbatim>\<open>json.Marshal\<close> fails on the payload, InsertIntoDB does what it does
  for a payload that serializes to the empty text: the failure is not returned,
  and if the URL parses the row is sent to the database with an empty payload.
  The only errors that can come back are those of the URL and of the write.
\<close>

theorem InsertIntoDB_marshal_failure:
  assumes "json_Marshal (event.Content ev) = Inl merr"
  shows "InsertIntoDB json_Marshal db testID ev = InsertIntoDB (\<lambda>c. Inr []) db testID ev
       \<and> (\<forall>u. url_Parse (event.URL ev) = Inr u \<longrightarrow>
             InsertIntoDB json_Marshal db testID ev =
               (case db_Exec db \<lparr>col_test_id = testID, col_type = event.Type ev,
                                  col_domain = hd (Split (Host u) CHR '':''),
                                  col_payload = [], col_body = event.Body ev\<rparr> of
                  (Some err, db') \<Rightarrow> (Some (FailedToInsert err), db')
                | (None, db') \<Rightarrow> (None, db')))"
  using assms by (simp add: InsertIntoDB_def Let_def)

theorem InsertIntoDB_marshal_failure_witness:
  "InsertIntoDB (\<lambda>c. Inl ''json: unsupported type'') \<lparr>events = [], rejects = (\<lambda>r. None)\<rparr> ''t1''
      \<lparr>event.RequestID = ''1'', event.Type = ''request'', event.URL = ''https://example.com:8443/path'',
       event.Content = OtherContent, event.Body = ''b''\<rparr>
   = (None, \<lparr>events = [\<lparr>col_test_id = ''t1'', col_type = ''request'', col_domain = ''example.com'',
                         col_payload = [], col_body = ''b''\<rparr>],
             rejects = (\<lambda>r. None)\<rparr>)"
  using InsertIntoDB_marshal_failure
    [of "\<lambda>c. Inl ''json: unsupported type''"
      "\<lparr>event.RequestID = ''1'', event.Type = ''request'', event.URL = ''https://example.com:8443/path'',
       event.Content = OtherContent, event.Body = ''b''\<rparr>"
      "''json: unsupported type''" "\<lparr>events = [], rejects = (\<lambda>r. None)\<rparr>" "''t1''"]
  by (simp add: InsertIntoDB_def db_Exec_def Split_def url_defs)

end
